theory Spec2Isabelle
  imports Main "HOL-Library.Word" "HOL-Library.Sublist"
begin

unbundle bit_operations_syntax

section \<open>The credential authenticator of software/earl/authenticator.go\<close>

text \<open>
  The development embeds \<^verbatim>\<open>authenticator.go\<close> function by function. The mutex
  \<^verbatim>\<open>validUsersLock\<close> and the log output are not part of the model: every function is
  read as one sequential run. The table \<^verbatim>\<open>map[string]*User\<close> holds non-nil pointers to
  records that are never written after they are stored, so it is a map from keys to records.
\<close>

subsection \<open>Time\<close>

text \<open>
  Go's \<^verbatim>\<open>time.Time\<close>: the seconds since the zero time (January 1, year 1, 00:00:00 UTC),
  the nanoseconds within the second and the offset of the time's location east of UTC.
\<close>

record time =
  sec :: int
  nsec :: nat
  zoneOffset :: int

definition IsZero :: "time \<Rightarrow> bool" where
  "IsZero t = (sec t = 0 \<and> nsec t = 0)"

definition Hour :: "time \<Rightarrow> int" where
  "Hour t = ((sec t + zoneOffset t) mod 86400) div 3600"

subsection \<open>Levels, targets and identity records\<close>

text \<open>
  Modelled from the spec: the declarations of \<^verbatim>\<open>Level\<close>, \<^verbatim>\<open>Target\<close> and \<^verbatim>\<open>User\<close> are not in
  authenticator.go. The five level constants are the ones the file names; \<open>LevelOther\<close>
  stands for every value of the type that is none of them, and \<open>TargetOther\<close> for every
  target but \<^verbatim>\<open>TargetDownstairs\<close>. A \<open>User\<close> has the fields the file reads and writes; the
  remaining fields of the struct are the record's extension.
\<close>

datatype Level =
  LevelMember | LevelFulltimeUser | LevelUser | LevelHiatus | LevelLegacy | LevelOther string

datatype Target = TargetDownstairs | TargetOther string

record User =
  Name :: string
  ContactInfo :: string
  UserLevel :: Level
  Sponsors :: "string list"
  ValidFrom :: time
  Codes :: "string list"

subsection \<open>The clock\<close>

text \<open>
  Modelled from the spec: the \<^verbatim>\<open>Clock\<close> interface is declared outside authenticator.go,
  which only calls \<^verbatim>\<open>Now()\<close>. A clock is the sequence of its readings and the number of
  readings taken so far; every call of \<open>Now\<close> takes the next one.
\<close>

record Clock =
  readings :: "nat \<Rightarrow> time"
  taken :: nat

definition Now :: "Clock \<Rightarrow> time \<times> Clock" where
  "Now c = (readings c (taken c), c\<lparr>taken := Suc (taken c)\<rparr>)"

subsection \<open>Hashing of authentication codes\<close>

text \<open>
  \<^verbatim>\<open>crypto/md5\<close> is the MD5 digest of RFC 1321 and \<^verbatim>\<open>encoding/hex\<close> writes two lower-case
  digits per byte. A Go string is its bytes, and so is a \<open>string\<close> here.
\<close>

type_synonym byte = "8 word"
type_synonym uint32 = "32 word"

definition md5_init :: "uint32 \<times> uint32 \<times> uint32 \<times> uint32" where
  "md5_init = (0x67452301, 0xefcdab89, 0x98badcfe, 0x10325476)"

definition md5_shift :: "nat list" where
  "md5_shift =
    [7, 12, 17, 22, 7, 12, 17, 22, 7, 12, 17, 22, 7, 12, 17, 22,
     5, 9, 14, 20, 5, 9, 14, 20, 5, 9, 14, 20, 5, 9, 14, 20,
     4, 11, 16, 23, 4, 11, 16, 23, 4, 11, 16, 23, 4, 11, 16, 23,
     6, 10, 15, 21, 6, 10, 15, 21, 6, 10, 15, 21, 6, 10, 15, 21]"

definition md5_table :: "uint32 list" where
  "md5_table =
    [0xd76aa478, 0xe8c7b756, 0x242070db, 0xc1bdceee,
     0xf57c0faf, 0x4787c62a, 0xa8304613, 0xfd469501,
     0x698098d8, 0x8b44f7af, 0xffff5bb1, 0x895cd7be,
     0x6b901122, 0xfd987193, 0xa679438e, 0x49b40821,
     0xf61e2562, 0xc040b340, 0x265e5a51, 0xe9b6c7aa,
     0xd62f105d, 0x02441453, 0xd8a1e681, 0xe7d3fbc8,
     0x21e1cde6, 0xc33707d6, 0xf4d50d87, 0x455a14ed,
     0xa9e3e905, 0xfcefa3f8, 0x676f02d9, 0x8d2a4c8a,
     0xfffa3942, 0x8771f681, 0x6d9d6122, 0xfde5380c,
     0xa4beea44, 0x4bdecfa9, 0xf6bb4b60, 0xbebfbc70,
     0x289b7ec6, 0xeaa127fa, 0xd4ef3085, 0x04881d05,
     0xd9d4d039, 0xe6db99e5, 0x1fa27cf8, 0xc4ac5665,
     0xf4292244, 0x432aff97, 0xab9423a7, 0xfc93a039,
     0x655b59c3, 0x8f0ccc92, 0xffeff47d, 0x85845dd1,
     0x6fa87e4f, 0xfe2ce6e0, 0xa3014314, 0x4e0811a1,
     0xf7537e82, 0xbd3af235, 0x2ad7d2bb, 0xeb86d391]"

definition le_uint32 :: "byte list \<Rightarrow> uint32" where
  "le_uint32 bs = foldr (\<lambda>b w. ucast b OR push_bit 8 w) bs 0"

definition le_bytes :: "nat \<Rightarrow> 'a::len word \<Rightarrow> byte list" where
  "le_bytes n w = map (\<lambda>i. ucast (drop_bit (8 * i) w)) [0..<n]"

definition md5_pad :: "byte list \<Rightarrow> byte list" where
  "md5_pad msg =
     msg @ [0x80] @ replicate ((119 - length msg mod 64) mod 64) 0 @
     le_bytes 8 (push_bit 3 (of_nat (length msg) :: 64 word))"

definition md5_step ::
  "uint32 list \<Rightarrow> nat \<Rightarrow> uint32 \<times> uint32 \<times> uint32 \<times> uint32 \<Rightarrow> uint32 \<times> uint32 \<times> uint32 \<times> uint32" where
  "md5_step M i = (\<lambda>(a, b, c, d).
     let (f, g) =
           (if i < 16 then ((b AND c) OR (NOT b AND d), i)
            else if i < 32 then ((d AND b) OR (NOT d AND c), (5 * i + 1) mod 16)
            else if i < 48 then (b XOR c XOR d, (3 * i + 5) mod 16)
            else (c XOR (b OR NOT d), (7 * i) mod 16))
     in (d, b + word_rotl (md5_shift ! i) (f + a + md5_table ! i + M ! g), b, c))"

definition md5_block ::
  "uint32 \<times> uint32 \<times> uint32 \<times> uint32 \<Rightarrow> byte list \<Rightarrow> uint32 \<times> uint32 \<times> uint32 \<times> uint32" where
  "md5_block s blk =
     (let M = map (\<lambda>j. le_uint32 (take 4 (drop (4 * j) blk))) [0..<16];
          (a0, b0, c0, d0) = s;
          (a, b, c, d) = fold (md5_step M) [0..<64] s
      in (a0 + a, b0 + b, c0 + c, d0 + d))"

definition md5_Sum :: "byte list \<Rightarrow> byte list" where
  "md5_Sum msg =
     (let p = md5_pad msg;
          (a, b, c, d) =
            fold (\<lambda>k s. md5_block s (take 64 (drop (64 * k) p))) [0..<length p div 64] md5_init
      in concat (map (\<lambda>w. le_bytes 4 w) [a, b, c, d]))"

definition hextable :: string where
  "hextable = ''0123456789abcdef''"

definition EncodeToString :: "byte list \<Rightarrow> string" where
  "EncodeToString src =
     concat (map (\<lambda>v. [hextable ! unat (drop_bit 4 v), hextable ! unat (v AND 0x0f)]) src)"

definition bytes :: "string \<Rightarrow> byte list" where
  "bytes s = map of_char s"

definition hashAuthCode :: "string \<Rightarrow> string" where
  "hashAuthCode plain =
     EncodeToString (md5_Sum (bytes (''MakeThisALittleBitLongerToChewOnEarlFoo'' @ plain)))"

text \<open>The floor on the length of a code: \<^verbatim>\<open>len(code) >= 6\<close> counts bytes.\<close>

definition hasMinimalCodeRequirements :: "string \<Rightarrow> bool" where
  "hasMinimalCodeRequirements code = (length code \<ge> 6)"

subsection \<open>The authenticator's state\<close>

record 'x FileBasedAuthenticator =
  userFilename :: string
  fileTimestamp :: time
  validUsers :: "string \<rightharpoonup> 'x User_scheme"
  clock :: Clock

subsection \<open>addUserSynchronized\<close>

text \<open>The first loop: is one of the codes already a key of the table?\<close>

fun codeInUse :: "(string \<rightharpoonup> 'x User_scheme) \<Rightarrow> string list \<Rightarrow> bool" where
  "codeInUse m [] = False"
| "codeInUse m (code # codes) = (if m code \<noteq> None then True else codeInUse m codes)"

text \<open>The second loop: store the record under each of its codes, in order.\<close>

fun storeCodes ::
  "(string \<rightharpoonup> 'x User_scheme) \<Rightarrow> string list \<Rightarrow> 'x User_scheme \<Rightarrow> (string \<rightharpoonup> 'x User_scheme)" where
  "storeCodes m [] user = m"
| "storeCodes m (code # codes) user = storeCodes (m(code \<mapsto> user)) codes user"

definition addUserSynchronized ::
  "'x FileBasedAuthenticator \<Rightarrow> 'x User_scheme \<Rightarrow> bool \<times> 'x FileBasedAuthenticator" where
  "addUserSynchronized a user =
     (if codeInUse (validUsers a) (Codes user) then (False, a)
      else (True, a\<lparr>validUsers := storeCodes (validUsers a) (Codes user) user\<rparr>))"

subsection \<open>Lookup\<close>

definition findUserSynchronized ::
  "'x FileBasedAuthenticator \<Rightarrow> string \<Rightarrow> 'x User_scheme option" where
  "findUserSynchronized a plain_code = validUsers a (hashAuthCode plain_code)"

text \<open>\<^verbatim>\<open>FindUser\<close> returns a pointer to a copy of the record, or nil.\<close>

definition FindUser :: "'x FileBasedAuthenticator \<Rightarrow> string \<Rightarrow> 'x User_scheme option" where
  "FindUser a plain_code =
     (case findUserSynchronized a plain_code of
        None \<Rightarrow> None
      | Some user \<Rightarrow> (let retval = user in Some retval))"

subsection \<open>What lies outside authenticator.go\<close>

text \<open>
  The file system and the parts of the program that authenticator.go calls but does not
  define, over a state \<open>'w\<close> of the file system. A call that returns an \<^verbatim>\<open>error\<close> gives
  the error's text.
  \<^item> \<open>os_Stat\<close>: \<^verbatim>\<open>os.Stat(name)\<close>, the error or the file's \<^verbatim>\<open>ModTime()\<close>.
  \<^item> \<open>os_Open\<close>: \<^verbatim>\<open>os.Open(name)\<close> and the CSV reader on the file. Modelled from the spec:
    \<^verbatim>\<open>NewUserFromCSV\<close> is not in authenticator.go; an opened file is the list of what its
    successive calls return before the one that reports \<^verbatim>\<open>done\<close>: a record, or \<open>None\<close> for
    a line that is skipped ("lines that are comments or malformed are skipped, not fatal").
  \<^item> \<open>os_OpenFile\<close>: \<^verbatim>\<open>os.OpenFile(name, os.O_WRONLY|os.O_APPEND, 0644)\<close>, the error if any.
  \<^item> \<open>os_Write\<close>: \<^verbatim>\<open>user.WriteCSV(writer); writer.Flush()\<close> on the file opened for
    appending: the error the writer is left with, if any (the one \<^verbatim>\<open>writer.Error()\<close> would
    give), and the file system afterwards.
  \<^item> \<open>InValidityPeriod\<close>: the method of \<^verbatim>\<open>User\<close> of that name.
  \<^item> \<open>RealClock\<close>: the clock \<^verbatim>\<open>RealClock{}\<close> of a new authenticator.
\<close>

record ('w, 'x) Env =
  os_Stat :: "'w \<Rightarrow> string \<Rightarrow> string + time"
  os_Open :: "'w \<Rightarrow> string \<Rightarrow> string + 'x User_scheme option list"
  os_OpenFile :: "'w \<Rightarrow> string \<Rightarrow> string option"
  os_Write :: "'w \<Rightarrow> string \<Rightarrow> 'x User_scheme \<Rightarrow> string option \<times> 'w"
  InValidityPeriod :: "'x User_scheme \<Rightarrow> time \<Rightarrow> bool"
  RealClock :: Clock

text \<open>
  \<^verbatim>\<open>fileinfo, _ := os.Stat(name)\<close> followed by \<^verbatim>\<open>fileinfo.ModTime()\<close> calls a method of a
  nil interface when \<^verbatim>\<open>os.Stat\<close> fails: the run ends in a panic.
\<close>

datatype panic = NilPointerDereference

subsection \<open>Reading the user file\<close>

text \<open>
  The loop of \<^verbatim>\<open>readUserFile\<close>: a skipped line is passed over, a record is handed to
  \<^verbatim>\<open>addUserSynchronized\<close>, whose result the loop does not look at. The counters of the loop
  are only logged.
\<close>

fun readUsers ::
  "'x User_scheme option list \<Rightarrow> 'x FileBasedAuthenticator \<Rightarrow> 'x FileBasedAuthenticator" where
  "readUsers [] a = a"
| "readUsers (None # rows) a = readUsers rows a"
| "readUsers (Some user # rows) a = readUsers rows (snd (addUserSynchronized a user))"

definition readUserFile ::
  "('w, 'x) Env \<Rightarrow> 'w \<Rightarrow> 'x FileBasedAuthenticator \<Rightarrow> panic + (bool \<times> 'x FileBasedAuthenticator)" where
  "readUserFile env w a =
     (if userFilename a = [] then Inr (False, a)
      else case os_Open env w (userFilename a) of
        Inl err \<Rightarrow> Inr (False, a)
      | Inr rows \<Rightarrow>
          (case os_Stat env w (userFilename a) of
             Inl err \<Rightarrow> Inl NilPointerDereference
           | Inr modTime \<Rightarrow> Inr (True, readUsers rows (a\<lparr>fileTimestamp := modTime\<rparr>))))"

definition zeroTime :: time where
  "zeroTime = \<lparr>sec = 0, nsec = 0, zoneOffset = 0\<rparr>"

text \<open>\<open>None\<close> is the nil that \<^verbatim>\<open>NewFileBasedAuthenticator\<close> returns when the file cannot be read.\<close>

definition NewFileBasedAuthenticator ::
  "('w, 'x) Env \<Rightarrow> 'w \<Rightarrow> string \<Rightarrow> panic + 'x FileBasedAuthenticator option" where
  "NewFileBasedAuthenticator env w filename =
     (let a = \<lparr>userFilename = filename, fileTimestamp = zeroTime,
                validUsers = Map.empty, clock = RealClock env\<rparr>
      in case readUserFile env w a of
           Inl p \<Rightarrow> Inl p
         | Inr (ok, a') \<Rightarrow> if \<not> ok then Inr None else Inr (Some a'))"

definition reloadIfChanged ::
  "('w, 'x) Env \<Rightarrow> 'w \<Rightarrow> 'x FileBasedAuthenticator \<Rightarrow> panic + 'x FileBasedAuthenticator" where
  "reloadIfChanged env w a =
     (case os_Stat env w (userFilename a) of
        Inl err \<Rightarrow> Inr a
      | Inr modTime \<Rightarrow>
          if fileTimestamp a = modTime then Inr a
          else case NewFileBasedAuthenticator env w (userFilename a) of
            Inl p \<Rightarrow> Inl p
          | Inr None \<Rightarrow> Inr a
          | Inr (Some newAuth) \<Rightarrow>
              Inr (a\<lparr>fileTimestamp := fileTimestamp newAuth, validUsers := validUsers newAuth\<rparr>))"

subsection \<open>AddNewUser\<close>

text \<open>
  The result is the pair the Go function returns, the authenticator and the file system
  afterwards. The clock is read where the source calls \<^verbatim>\<open>a.clock.Now()\<close>: once for the
  sponsor's validity and once more when the candidate's \<^verbatim>\<open>ValidFrom\<close> is zero.
\<close>

definition AddNewUser ::
  "('w, 'x) Env \<Rightarrow> 'w \<Rightarrow> 'x FileBasedAuthenticator \<Rightarrow> string \<Rightarrow> 'x User_scheme \<Rightarrow>
     panic + ((bool \<times> string) \<times> 'x FileBasedAuthenticator \<times> 'w)" where
  "AddNewUser env w a authentication_code user =
     (case findUserSynchronized a authentication_code of
        None \<Rightarrow> Inr ((False, ''Couldn't find member with authentication code''), a, w)
      | Some authMember \<Rightarrow>
          if UserLevel authMember \<noteq> LevelMember
          then Inr ((False, ''Non-member AddNewUser attempt''), a, w)
          else
            let (now1, c1) = Now (clock a); a1 = a\<lparr>clock := c1\<rparr> in
            if \<not> InValidityPeriod env authMember now1
            then Inr ((False, ''Auth-Member not in valid time-frame''), a1, w)
            else
              let user1 = user\<lparr>Sponsors := [hashAuthCode authentication_code]\<rparr>;
                  (user2, a2) =
                    (if IsZero (ValidFrom user1)
                     then (let (now2, c2) = Now (clock a1)
                           in (user1\<lparr>ValidFrom := now2\<rparr>, a1\<lparr>clock := c2\<rparr>))
                     else (user1, a1));
                  (ok, a3) = addUserSynchronized a2 user2
              in
              if \<not> ok then Inr ((False, ''Duplicate codes while adding user''), a3, w)
              else
                case os_OpenFile env w (userFilename a3) of
                  Some err \<Rightarrow> Inr ((False, err), a3, w)
                | None \<Rightarrow>
                    let (werr, w') = os_Write env w (userFilename a3) user2 in
                    (case os_Stat env w' (userFilename a3) of
                       Inl err \<Rightarrow> Inl NilPointerDereference
                     | Inr modTime \<Rightarrow> Inr ((True, []), a3\<lparr>fileTimestamp := modTime\<rparr>, w')))"

subsection \<open>The access policy\<close>

definition isUserDaytime :: "'x FileBasedAuthenticator \<Rightarrow> bool \<times> 'x FileBasedAuthenticator" where
  "isUserDaytime a =
     (let (now, c) = Now (clock a); hour = Hour now
      in (hour \<ge> 11 \<and> hour < 22, a\<lparr>clock := c\<rparr>))"

definition isFulltimeUserDaytime ::
  "'x FileBasedAuthenticator \<Rightarrow> bool \<times> 'x FileBasedAuthenticator" where
  "isFulltimeUserDaytime a =
     (let (now, c) = Now (clock a); hour = Hour now
      in (hour \<ge> 7 \<and> hour \<le> 23, a\<lparr>clock := c\<rparr>))"

fun levelHasAccess ::
  "'x FileBasedAuthenticator \<Rightarrow> Level \<Rightarrow> Target \<Rightarrow> (bool \<times> string) \<times> 'x FileBasedAuthenticator" where
  "levelHasAccess a LevelMember target = ((True, []), a)"
| "levelHasAccess a LevelFulltimeUser target =
     (let (isday, a') = isFulltimeUserDaytime a
      in if \<not> isday then ((False, ''Fulltime user outside daytime''), a')
         else ((isday, []), a'))"
| "levelHasAccess a LevelUser target =
     (let (isday, a') = isUserDaytime a
      in if \<not> isday then ((False, ''Regular user outside daytime''), a')
         else ((isday, []), a'))"
| "levelHasAccess a LevelHiatus target = ((False, ''On Hiatus''), a)"
| "levelHasAccess a LevelLegacy target =
     (let (isday, a') = isUserDaytime a
      in if \<not> isday then ((False, ''Gate user outside daytime''), a')
         else ((target = TargetDownstairs, []), a'))"
| "levelHasAccess a (LevelOther v) target = ((False, []), a)"

subsection \<open>AuthUser\<close>

text \<open>\<^verbatim>\<open>fmt.Sprintf("User on hiatus '%s <%s>'", user.Name, user.ContactInfo)\<close>\<close>

definition hiatusMessage :: "string \<Rightarrow> string \<Rightarrow> string" where
  "hiatusMessage name contact =
     ''User on hiatus '' @ [CHR 0x27] @ name @ '' <'' @ contact @ ''>'' @ [CHR 0x27]"

definition AuthUser ::
  "('w, 'x) Env \<Rightarrow> 'w \<Rightarrow> 'x FileBasedAuthenticator \<Rightarrow> string \<Rightarrow> Target \<Rightarrow>
     panic + ((bool \<times> string) \<times> 'x FileBasedAuthenticator)" where
  "AuthUser env w a code target =
     (if \<not> hasMinimalCodeRequirements code
      then Inr ((False, ''Auth failed: too short code.''), a)
      else
        case reloadIfChanged env w a of
          Inl p \<Rightarrow> Inl p
        | Inr a1 \<Rightarrow>
            (case findUserSynchronized a1 code of
               None \<Rightarrow> Inr ((False, ''No user for code''), a1)
             | Some user \<Rightarrow>
                 if UserLevel user = LevelHiatus
                 then Inr ((False, hiatusMessage (Name user) (ContactInfo user)), a1)
                 else
                   let (now, c) = Now (clock a1); a2 = a1\<lparr>clock := c\<rparr> in
                   if \<not> InValidityPeriod env user now
                   then Inr ((False, ''Code not valid yet/expired''), a2)
                   else Inr (levelHasAccess a2 (UserLevel user) target)))"

subsection \<open>A small installation for worked examples\<close>

text \<open>
  A file system that maps a file's name to its modification time and its rows, one user
  file, four records and a clock that stands still. The validity rule of the example is
  "valid from \<^verbatim>\<open>ValidFrom\<close> on"; the keys are the hashes of the plain codes
  \<^verbatim>\<open>member-pin\<close>, \<^verbatim>\<open>hiatus-pin\<close>, \<^verbatim>\<open>123\<close>, \<^verbatim>\<open>legacy-fob\<close>, \<^verbatim>\<open>odd-level1\<close> and \<^verbatim>\<open>new-user-1\<close>.
\<close>

type_synonym files = "string \<rightharpoonup> time \<times> User option list"

definition atHour :: "int \<Rightarrow> time" where
  "atHour h = \<lparr>sec = 3600 * h, nsec = 0, zoneOffset = 0\<rparr>"

definition fixedClock :: "time \<Rightarrow> Clock" where
  "fixedClock t = \<lparr>readings = (\<lambda>n. t), taken = 0\<rparr>"

definition validFromOn :: "User \<Rightarrow> time \<Rightarrow> bool" where
  "validFromOn user now = (IsZero (ValidFrom user) \<or> sec (ValidFrom user) \<le> sec now)"

definition alice :: User where
  "alice = \<lparr>Name = ''Alice'', ContactInfo = ''alice@example.org'', UserLevel = LevelMember,
     Sponsors = [], ValidFrom = zeroTime, Codes = [''6b5e022ad58b881b63300738df2eabf9'']\<rparr>"

definition bob :: User where
  "bob = \<lparr>Name = ''Bob'', ContactInfo = ''bob@example.org'', UserLevel = LevelHiatus,
     Sponsors = [], ValidFrom = zeroTime,
     Codes = [''a29e1e9d875d3362fdf7d8719b903837'', ''64f33a6352b1f7e43046afbdb228fedf'']\<rparr>"

definition dave :: User where
  "dave = \<lparr>Name = ''Dave'', ContactInfo = ''dave@example.org'', UserLevel = LevelLegacy,
     Sponsors = [], ValidFrom = zeroTime, Codes = [''aad342c029d0315b80fe5b0846c7f205'']\<rparr>"

definition eve :: User where
  "eve = \<lparr>Name = ''Eve'', ContactInfo = ''eve@example.org'', UserLevel = LevelOther ''guest'',
     Sponsors = [], ValidFrom = zeroTime, Codes = [''44bcacc7021d3fb97a02e213b68a0bd7'']\<rparr>"

definition newcomer :: User where
  "newcomer = \<lparr>Name = ''Nora'', ContactInfo = ''nora@example.org'', UserLevel = LevelUser,
     Sponsors = [''someone''], ValidFrom = zeroTime,
     Codes = [''82f4f1436331c600b8bee8b3075af3ff'']\<rparr>"

definition exampleUsers :: "string \<rightharpoonup> User" where
  "exampleUsers =
     [''6b5e022ad58b881b63300738df2eabf9'' \<mapsto> alice,
      ''a29e1e9d875d3362fdf7d8719b903837'' \<mapsto> bob,
      ''64f33a6352b1f7e43046afbdb228fedf'' \<mapsto> bob,
      ''aad342c029d0315b80fe5b0846c7f205'' \<mapsto> dave,
      ''44bcacc7021d3fb97a02e213b68a0bd7'' \<mapsto> eve]"

definition exampleFiles :: files where
  "exampleFiles = [''users.csv'' \<mapsto> (atHour 9, [Some alice, None, Some bob, Some dave, Some eve])]"

definition exampleAuth :: "unit FileBasedAuthenticator" where
  "exampleAuth = \<lparr>userFilename = ''users.csv'', fileTimestamp = atHour 9,
     validUsers = exampleUsers, clock = fixedClock (atHour 15)\<rparr>"

definition simpleEnv :: "(files, unit) Env" where
  "simpleEnv = \<lparr>
     os_Stat = (\<lambda>w name. case w name of
                  None \<Rightarrow> Inl ''stat: no such file or directory''
                | Some (modTime, rows) \<Rightarrow> Inr modTime),
     os_Open = (\<lambda>w name. case w name of
                  None \<Rightarrow> Inl ''open: no such file or directory''
                | Some (modTime, rows) \<Rightarrow> Inr rows),
     os_OpenFile = (\<lambda>w name. case w name of
                  None \<Rightarrow> Some ''open: no such file or directory''
                | Some (modTime, rows) \<Rightarrow> None),
     os_Write = (\<lambda>w name user. case w name of
                  None \<Rightarrow> (Some ''write: file already closed'', w)
                | Some (modTime, rows) \<Rightarrow>
                    (None, w(name \<mapsto> (modTime\<lparr>sec := sec modTime + 1\<rparr>, rows @ [Some user])))),
     InValidityPeriod = validFromOn,
     RealClock = fixedClock zeroTime\<rparr>"

text \<open>The example authenticator with its clock standing at a given hour.\<close>

definition authAt :: "int \<Rightarrow> unit FileBasedAuthenticator" where
  "authAt h = exampleAuth\<lparr>clock := fixedClock (atHour h)\<rparr>"

text \<open>The same file system on a full disk: the file opens, the write fails.\<close>

definition fullDiskEnv :: "(files, unit) Env" where
  "fullDiskEnv =
     simpleEnv\<lparr>os_Write := (\<lambda>w name user. (Some ''write: no space left on device'', w))\<rparr>"

text \<open>The same file system with a user file whose \<^verbatim>\<open>os.Stat\<close> fails.\<close>

definition noStatEnv :: "(files, unit) Env" where
  "noStatEnv = simpleEnv\<lparr>os_Stat := (\<lambda>w name. Inl ''stat users.csv: permission denied'')\<rparr>"

text \<open>The same file system with a user file that cannot be opened for appending.\<close>

definition readOnlyEnv :: "(files, unit) Env" where
  "readOnlyEnv =
     simpleEnv\<lparr>os_OpenFile := (\<lambda>w name. Some ''open users.csv: permission denied'')\<rparr>"

text \<open>
  The newcomer as \<^verbatim>\<open>AddNewUser\<close> stores her when Alice sponsors her at 15:00, and the example
  authenticator afterwards, its clock read twice.
\<close>

definition nora :: User where
  "nora = newcomer\<lparr>Sponsors := [''6b5e022ad58b881b63300738df2eabf9''], ValidFrom := atHour 15\<rparr>"

definition addedAuth :: "unit FileBasedAuthenticator" where
  "addedAuth = exampleAuth
     \<lparr>validUsers := (validUsers exampleAuth)(''82f4f1436331c600b8bee8b3075af3ff'' \<mapsto> nora),
      clock := (fixedClock (atHour 15))\<lparr>taken := 2\<rparr>\<rparr>"

text \<open>The same file system with a user file that cannot be opened for reading.\<close>

definition unreadableEnv :: "(files, unit) Env" where
  "unreadableEnv = simpleEnv\<lparr>os_Open := (\<lambda>w name. Inl ''open: permission denied'')\<rparr>"

text \<open>The example authenticator with an older marker and an empty table.\<close>

definition staleAuth :: "unit FileBasedAuthenticator" where
  "staleAuth = exampleAuth\<lparr>fileTimestamp := atHour 8, validUsers := Map.empty\<rparr>"

section \<open>Properties\<close>

subsection \<open>Insertion is all or nothing\<close>

lemma codeInUse_iff: "codeInUse m codes \<longleftrightarrow> (\<exists>c \<in> set codes. m c \<noteq> None)"
  by (induction codes) auto

lemma storeCodes_apply:
  "storeCodes m codes user c = (if c \<in> set codes then Some user else m c)"
  by (induction codes arbitrary: m) auto

text \<open>
  C1. A record one of whose codes is already a key of the table is refused and the
  authenticator is returned as it was: every key maps to what it mapped to before, and a
  code of the record that was not a key is still not one. A record none of whose codes is
  a key is accepted; afterwards each of its codes maps to the record and every other key
  is untouched. The table is a map, so a code never maps to two records.
\<close>

theorem addUserSynchronized_all_or_nothing:
  "((\<exists>c \<in> set (Codes user). validUsers a c \<noteq> None) \<longrightarrow>
      addUserSynchronized a user = (False, a)) \<and>
   ((\<forall>c \<in> set (Codes user). validUsers a c = None) \<longrightarrow>
      fst (addUserSynchronized a user) = True \<and>
      (\<forall>c \<in> set (Codes user). validUsers (snd (addUserSynchronized a user)) c = Some user) \<and>
      (\<forall>c. c \<notin> set (Codes user) \<longrightarrow>
         validUsers (snd (addUserSynchronized a user)) c = validUsers a c) \<and>
      userFilename (snd (addUserSynchronized a user)) = userFilename a \<and>
      fileTimestamp (snd (addUserSynchronized a user)) = fileTimestamp a \<and>
      clock (snd (addUserSynchronized a user)) = clock a)"
  by (auto simp: addUserSynchronized_def codeInUse_iff storeCodes_apply)

theorem addUserSynchronized_all_or_nothing_witness:
  "addUserSynchronized exampleAuth
     (newcomer\<lparr>Codes := [''82f4f1436331c600b8bee8b3075af3ff'', ''6b5e022ad58b881b63300738df2eabf9'']\<rparr>)
     = (False, exampleAuth) \<and>
   fst (addUserSynchronized exampleAuth newcomer) = True \<and>
   validUsers (snd (addUserSynchronized exampleAuth newcomer)) ''82f4f1436331c600b8bee8b3075af3ff''
     = Some newcomer \<and>
   validUsers (snd (addUserSynchronized exampleAuth newcomer)) ''6b5e022ad58b881b63300738df2eabf9''
     = Some alice"
  using addUserSynchronized_all_or_nothing
          [of "newcomer\<lparr>Codes := [''82f4f1436331c600b8bee8b3075af3ff'',
                                   ''6b5e022ad58b881b63300738df2eabf9'']\<rparr>" exampleAuth]
        addUserSynchronized_all_or_nothing [of newcomer exampleAuth]
  by (simp add: exampleAuth_def exampleUsers_def newcomer_def)

subsection \<open>The hash of a code\<close>

lemma md5_Sum_length: "length (md5_Sum msg) = 16"
  by (simp add: md5_Sum_def le_bytes_def Let_def split: prod.splits)

lemma EncodeToString_length: "length (EncodeToString src) = 2 * length src"
  by (induction src) (simp_all add: EncodeToString_def)

lemma nibble_in_hextable: "n < 16 \<Longrightarrow> hextable ! n \<in> set hextable"
  by (rule nth_mem) (simp add: hextable_def)

lemma high_nibble: "unat (drop_bit 4 (v :: byte)) < 16"
proof -
  have "unat v < 256"
    using unsigned_less [of v, where ?'a = nat] by simp
  then have "unat v div 16 < 16" by simp
  then show ?thesis by (simp add: drop_bit_eq_div unat_div)
qed

lemma low_nibble: "unat ((v :: byte) AND 0x0f) < 16"
proof -
  have "unat (v AND 15) \<le> unat (15 :: byte)"
    by (rule word_and_le1 [THEN word_le_nat_alt [THEN iffD1]])
  then show ?thesis by simp
qed

lemma EncodeToString_hex: "set (EncodeToString src) \<subseteq> set hextable"
  by (induction src)
     (simp_all add: EncodeToString_def nibble_in_hextable high_nibble low_nibble)

text \<open>
  The digests of RFC 1321's first two test vectors, and the keys of the plain codes of
  the worked examples.
\<close>

lemma md5_empty: "EncodeToString (md5_Sum []) = ''d41d8cd98f00b204e9800998ecf8427e''"
  by code_simp

lemma md5_abc: "EncodeToString (md5_Sum (bytes ''abc'')) = ''900150983cd24fb0d6963f7d28e17f72''"
  by code_simp

lemma hash_member_pin: "hashAuthCode ''member-pin'' = ''6b5e022ad58b881b63300738df2eabf9''"
  by code_simp

lemma hash_hiatus_pin: "hashAuthCode ''hiatus-pin'' = ''a29e1e9d875d3362fdf7d8719b903837''"
  by code_simp

lemma hash_123: "hashAuthCode ''123'' = ''64f33a6352b1f7e43046afbdb228fedf''"
  by code_simp

lemma hash_legacy_fob: "hashAuthCode ''legacy-fob'' = ''aad342c029d0315b80fe5b0846c7f205''"
  by code_simp

lemma hash_odd_level1: "hashAuthCode ''odd-level1'' = ''44bcacc7021d3fb97a02e213b68a0bd7''"
  by code_simp

lemma hash_new_user_1: "hashAuthCode ''new-user-1'' = ''82f4f1436331c600b8bee8b3075af3ff''"
  by code_simp

text \<open>
  C9. \<open>hashAuthCode\<close> is a function of the plain code alone: it takes no state, no clock
  and no file, so equal codes have equal keys wherever and whenever they are hashed. Every
  key is 32 characters long and each character is one of the sixteen lower-case
  hexadecimal digits.
\<close>

theorem hashAuthCode_deterministic_fixed_width:
  "(\<forall>plain'. plain' = plain \<longrightarrow> hashAuthCode plain' = hashAuthCode plain) \<and>
   length (hashAuthCode plain) = 32 \<and>
   set (hashAuthCode plain) \<subseteq> set ''0123456789abcdef''"
  using EncodeToString_hex [of "md5_Sum (bytes (''MakeThisALittleBitLongerToChewOnEarlFoo'' @ plain))"]
  by (simp add: hashAuthCode_def EncodeToString_length md5_Sum_length hextable_def)

theorem hashAuthCode_deterministic_fixed_width_witness:
  "hashAuthCode ''member-pin'' = ''6b5e022ad58b881b63300738df2eabf9'' \<and>
   length (hashAuthCode ''member-pin'') = 32 \<and>
   set (hashAuthCode ''member-pin'') \<subseteq> set ''0123456789abcdef''"
  using hashAuthCode_deterministic_fixed_width [of "''member-pin''"] hash_member_pin
  by simp

subsection \<open>The access policy\<close>

lemma Hour_range: "0 \<le> Hour t \<and> Hour t < 24"
proof -
  have "0 \<le> (sec t + zoneOffset t) mod 86400" and "(sec t + zoneOffset t) mod 86400 < 86400"
    by simp_all
  then show ?thesis unfolding Hour_def by (simp add: div_less_iff_less_mult pos_imp_zdiv_nonneg_iff)
qed

lemma isUserDaytime_eq:
  "isUserDaytime a =
     (11 \<le> Hour (fst (Now (clock a))) \<and> Hour (fst (Now (clock a))) < 22,
      a\<lparr>clock := snd (Now (clock a))\<rparr>)"
  by (simp add: isUserDaytime_def Let_def case_prod_beta)

lemma isFulltimeUserDaytime_eq:
  "isFulltimeUserDaytime a =
     (7 \<le> Hour (fst (Now (clock a))), a\<lparr>clock := snd (Now (clock a))\<rparr>)"
  using Hour_range [of "fst (Now (clock a))"]
  by (simp add: isFulltimeUserDaytime_def Let_def case_prod_beta)

text \<open>
  C2. With \<open>Hour (fst (Now (clock a)))\<close> the local hour of the clock's reading, which lies
  in 0..23: a Member is granted; a FulltimeUser is granted exactly in the hours 7..23; a
  RegularUser exactly in the hours 11..21; Hiatus is denied; Legacy is granted exactly in
  the hours 11..21 at the downstairs target; a level outside the enumeration is denied.
\<close>

theorem levelHasAccess_level_table:
  "fst (fst (levelHasAccess a LevelMember target)) \<and>
   (fst (fst (levelHasAccess a LevelFulltimeUser target)) \<longleftrightarrow>
      7 \<le> Hour (fst (Now (clock a))) \<and> Hour (fst (Now (clock a))) < 24) \<and>
   (fst (fst (levelHasAccess a LevelUser target)) \<longleftrightarrow>
      11 \<le> Hour (fst (Now (clock a))) \<and> Hour (fst (Now (clock a))) < 22) \<and>
   \<not> fst (fst (levelHasAccess a LevelHiatus target)) \<and>
   (fst (fst (levelHasAccess a LevelLegacy target)) \<longleftrightarrow>
      11 \<le> Hour (fst (Now (clock a))) \<and> Hour (fst (Now (clock a))) < 22 \<and>
      target = TargetDownstairs) \<and>
   \<not> fst (fst (levelHasAccess a (LevelOther v) target)) \<and>
   0 \<le> Hour (fst (Now (clock a))) \<and> Hour (fst (Now (clock a))) < 24"
  using Hour_range [of "fst (Now (clock a))"]
  by (auto simp: isUserDaytime_eq isFulltimeUserDaytime_eq)

lemma Hour_authAt: "0 \<le> h \<Longrightarrow> h < 24 \<Longrightarrow> Hour (fst (Now (clock (authAt h)))) = h"
  by (simp add: authAt_def fixedClock_def Now_def atHour_def Hour_def)

theorem levelHasAccess_level_table_witness:
  "\<not> fst (fst (levelHasAccess (authAt 6) LevelFulltimeUser TargetDownstairs)) \<and>
   fst (fst (levelHasAccess (authAt 7) LevelFulltimeUser TargetDownstairs)) \<and>
   fst (fst (levelHasAccess (authAt 23) LevelFulltimeUser TargetDownstairs)) \<and>
   \<not> fst (fst (levelHasAccess (authAt 0) LevelFulltimeUser TargetDownstairs)) \<and>
   \<not> fst (fst (levelHasAccess (authAt 10) LevelUser TargetDownstairs)) \<and>
   fst (fst (levelHasAccess (authAt 11) LevelUser TargetDownstairs)) \<and>
   fst (fst (levelHasAccess (authAt 21) LevelUser TargetDownstairs)) \<and>
   \<not> fst (fst (levelHasAccess (authAt 22) LevelUser TargetDownstairs)) \<and>
   fst (fst (levelHasAccess (authAt 15) LevelLegacy TargetDownstairs)) \<and>
   \<not> fst (fst (levelHasAccess (authAt 15) LevelLegacy (TargetOther ''upstairs''))) \<and>
   \<not> fst (fst (levelHasAccess (authAt 23) LevelLegacy TargetDownstairs)) \<and>
   fst (fst (levelHasAccess (authAt 3) LevelMember (TargetOther ''upstairs''))) \<and>
   \<not> fst (fst (levelHasAccess (authAt 15) (LevelOther ''guest'') TargetDownstairs))"
  using levelHasAccess_level_table [of "authAt 6" TargetDownstairs]
        levelHasAccess_level_table [of "authAt 7" TargetDownstairs]
        levelHasAccess_level_table [of "authAt 23" TargetDownstairs]
        levelHasAccess_level_table [of "authAt 0" TargetDownstairs]
        levelHasAccess_level_table [of "authAt 10" TargetDownstairs]
        levelHasAccess_level_table [of "authAt 11" TargetDownstairs]
        levelHasAccess_level_table [of "authAt 21" TargetDownstairs]
        levelHasAccess_level_table [of "authAt 22" TargetDownstairs]
        levelHasAccess_level_table [of "authAt 15" TargetDownstairs "''guest''"]
        levelHasAccess_level_table [of "authAt 15" "TargetOther ''upstairs''"]
        levelHasAccess_level_table [of "authAt 3" "TargetOther ''upstairs''"]
  by (simp add: Hour_authAt)

subsection \<open>Reloading the table\<close>

lemmas example_defs =
  exampleAuth_def exampleUsers_def exampleFiles_def simpleEnv_def alice_def bob_def dave_def
  eve_def newcomer_def atHour_def fixedClock_def zeroTime_def


lemma NewFileBasedAuthenticator_None:
  "NewFileBasedAuthenticator env w filename = Inr None \<longleftrightarrow>
     filename = [] \<or> (\<exists>err. os_Open env w filename = Inl err)"
  by (cases "os_Stat env w filename"; cases "os_Open env w filename")
     (auto simp: NewFileBasedAuthenticator_def readUserFile_def Let_def)

lemma NewFileBasedAuthenticator_Some:
  "NewFileBasedAuthenticator env w filename = Inr (Some newAuth) \<longleftrightarrow>
     filename \<noteq> [] \<and>
     (\<exists>rows modTime. os_Open env w filename = Inr rows \<and> os_Stat env w filename = Inr modTime \<and>
        newAuth = readUsers rows \<lparr>userFilename = filename, fileTimestamp = modTime,
                     validUsers = Map.empty, clock = RealClock env\<rparr>)"
  by (cases "os_Stat env w filename"; cases "os_Open env w filename")
     (auto simp: NewFileBasedAuthenticator_def readUserFile_def Let_def)

lemma addUserSynchronized_frame:
  "userFilename (snd (addUserSynchronized a user)) = userFilename a \<and>
   fileTimestamp (snd (addUserSynchronized a user)) = fileTimestamp a \<and>
   clock (snd (addUserSynchronized a user)) = clock a"
  by (simp add: addUserSynchronized_def)

lemma readUsers_frame:
  "userFilename (readUsers rows a) = userFilename a \<and>
   fileTimestamp (readUsers rows a) = fileTimestamp a \<and>
   clock (readUsers rows a) = clock a"
  by (induction rows a rule: readUsers.induct) (simp_all add: addUserSynchronized_frame)

lemma reloadIfChanged_returns:
  "\<exists>a'. reloadIfChanged env w a = Inr a' \<and> userFilename a' = userFilename a \<and> clock a' = clock a"
  by (cases "os_Stat env w (userFilename a)"; cases "os_Open env w (userFilename a)")
     (simp_all add: reloadIfChanged_def NewFileBasedAuthenticator_def readUserFile_def Let_def)

text \<open>
  C6. \<open>reloadIfChanged\<close> returns the authenticator as it was when \<^verbatim>\<open>os.Stat\<close> fails, when the
  file's modification time equals the recorded one, and when the time differs but no new
  authenticator can be built (\<^verbatim>\<open>NewFileBasedAuthenticator\<close> returns nil, which it does exactly
  when the file name is empty or the file cannot be opened). When the time differs and a
  new authenticator is built, the recorded time and the table are replaced, both at once,
  by the new authenticator's, and the new recorded time is the file's modification time;
  the file name and the clock stay. The function always returns. (The mutex is outside
  this sequential model.)
\<close>

theorem reloadIfChanged_frame:
  "((\<exists>err. os_Stat env w (userFilename a) = Inl err) \<longrightarrow> reloadIfChanged env w a = Inr a) \<and>
   (os_Stat env w (userFilename a) = Inr (fileTimestamp a) \<longrightarrow> reloadIfChanged env w a = Inr a) \<and>
   (\<forall>modTime. os_Stat env w (userFilename a) = Inr modTime \<and> fileTimestamp a \<noteq> modTime \<and>
        NewFileBasedAuthenticator env w (userFilename a) = Inr None \<longrightarrow>
      reloadIfChanged env w a = Inr a) \<and>
   (\<forall>modTime newAuth. os_Stat env w (userFilename a) = Inr modTime \<and> fileTimestamp a \<noteq> modTime \<and>
        NewFileBasedAuthenticator env w (userFilename a) = Inr (Some newAuth) \<longrightarrow>
      reloadIfChanged env w a =
        Inr (a\<lparr>fileTimestamp := fileTimestamp newAuth, validUsers := validUsers newAuth\<rparr>) \<and>
      fileTimestamp newAuth = modTime) \<and>
   (NewFileBasedAuthenticator env w (userFilename a) = Inr None \<longleftrightarrow>
      userFilename a = [] \<or> (\<exists>err. os_Open env w (userFilename a) = Inl err)) \<and>
   (\<exists>a'. reloadIfChanged env w a = Inr a' \<and> userFilename a' = userFilename a \<and> clock a' = clock a)"
proof -
  have marker: "fileTimestamp newAuth = modTime"
    if "os_Stat env w (userFilename a) = Inr modTime"
      and "NewFileBasedAuthenticator env w (userFilename a) = Inr (Some newAuth)"
    for modTime newAuth
    using that by (auto simp: NewFileBasedAuthenticator_Some readUsers_frame)
  have c1: "(\<exists>err. os_Stat env w (userFilename a) = Inl err) \<longrightarrow> reloadIfChanged env w a = Inr a"
    by (auto simp: reloadIfChanged_def)
  have c2: "os_Stat env w (userFilename a) = Inr (fileTimestamp a) \<longrightarrow> reloadIfChanged env w a = Inr a"
    by (simp add: reloadIfChanged_def)
  have c3: "\<forall>modTime. os_Stat env w (userFilename a) = Inr modTime \<and> fileTimestamp a \<noteq> modTime \<and>
        NewFileBasedAuthenticator env w (userFilename a) = Inr None \<longrightarrow>
      reloadIfChanged env w a = Inr a"
    by (simp add: reloadIfChanged_def)
  have c4: "\<forall>modTime newAuth. os_Stat env w (userFilename a) = Inr modTime \<and> fileTimestamp a \<noteq> modTime \<and>
        NewFileBasedAuthenticator env w (userFilename a) = Inr (Some newAuth) \<longrightarrow>
      reloadIfChanged env w a =
        Inr (a\<lparr>fileTimestamp := fileTimestamp newAuth, validUsers := validUsers newAuth\<rparr>) \<and>
      fileTimestamp newAuth = modTime"
    using marker by (simp add: reloadIfChanged_def)
  show ?thesis
    using c1 c2 c3 c4 NewFileBasedAuthenticator_None [of env w "userFilename a"]
          reloadIfChanged_returns [of env w a]
    by blast
qed


theorem reloadIfChanged_frame_witness:
  "reloadIfChanged simpleEnv exampleFiles (exampleAuth\<lparr>userFilename := ''gone.csv''\<rparr>)
     = Inr (exampleAuth\<lparr>userFilename := ''gone.csv''\<rparr>) \<and>
   reloadIfChanged simpleEnv exampleFiles exampleAuth = Inr exampleAuth \<and>
   reloadIfChanged unreadableEnv exampleFiles staleAuth = Inr staleAuth \<and>
   reloadIfChanged simpleEnv exampleFiles staleAuth = Inr exampleAuth"
proof -
  have gone: "os_Stat simpleEnv exampleFiles ''gone.csv'' = Inl ''stat: no such file or directory''"
    by (simp add: simpleEnv_def exampleFiles_def)
  have same: "os_Stat simpleEnv exampleFiles ''users.csv'' = Inr (atHour 9)"
    by (simp add: simpleEnv_def exampleFiles_def)
  have same': "os_Stat unreadableEnv exampleFiles ''users.csv'' = Inr (atHour 9)"
    by (simp add: unreadableEnv_def simpleEnv_def exampleFiles_def)
  have differ: "atHour 8 \<noteq> atHour 9"
    by (simp add: atHour_def)
  have unreadable: "NewFileBasedAuthenticator unreadableEnv exampleFiles ''users.csv'' = Inr None"
    by (simp add: NewFileBasedAuthenticator_def readUserFile_def unreadableEnv_def simpleEnv_def)
  have rebuilt: "NewFileBasedAuthenticator simpleEnv exampleFiles ''users.csv''
      = Inr (Some (exampleAuth\<lparr>clock := fixedClock zeroTime\<rparr>))"
    by (simp add: NewFileBasedAuthenticator_def readUserFile_def addUserSynchronized_def example_defs)
  show ?thesis
    using reloadIfChanged_frame [of simpleEnv exampleFiles "exampleAuth\<lparr>userFilename := ''gone.csv''\<rparr>"]
          reloadIfChanged_frame [of simpleEnv exampleFiles exampleAuth]
          reloadIfChanged_frame [of unreadableEnv exampleFiles staleAuth]
          reloadIfChanged_frame [of simpleEnv exampleFiles staleAuth]
          gone same same' differ unreadable rebuilt
    by (simp add: staleAuth_def exampleAuth_def)
qed


subsection \<open>The floor on the length of a code\<close>

text \<open>
  C7. A code of fewer than six characters is denied as too short, for every target, every
  table, every file system and every clock; the authenticator is returned as it was: no
  reload has replaced the table and the clock has not been read.
\<close>

theorem AuthUser_too_short:
  "length code < 6 \<Longrightarrow>
     AuthUser env w a code target = Inr ((False, ''Auth failed: too short code.''), a)"
  by (simp add: AuthUser_def hasMinimalCodeRequirements_def)


theorem AuthUser_too_short_witness:
  "length ''123'' < (6::nat) \<and>
   AuthUser simpleEnv exampleFiles exampleAuth ''123'' TargetDownstairs
     = Inr ((False, ''Auth failed: too short code.''), exampleAuth) \<and>
   AuthUser simpleEnv Map.empty staleAuth ''12345'' (TargetOther ''upstairs'')
     = Inr ((False, ''Auth failed: too short code.''), staleAuth)"
  using AuthUser_too_short [of "''123''" simpleEnv exampleFiles exampleAuth TargetDownstairs]
        AuthUser_too_short [of "''12345''" simpleEnv Map.empty staleAuth "TargetOther ''upstairs''"]
  by simp


text \<open>
  C10. \<open>FindUser\<close> has no floor: a plain code whose hash is a key of the table yields the
  record, also when the code is shorter than six characters and \<open>AuthUser\<close> denies the
  same code as too short.
\<close>

theorem FindUser_no_length_check:
  "validUsers a (hashAuthCode plain_code) = Some user \<Longrightarrow>
     FindUser a plain_code = Some user \<and>
     (length plain_code < 6 \<longrightarrow>
        AuthUser env w a plain_code target = Inr ((False, ''Auth failed: too short code.''), a))"
  by (simp add: FindUser_def findUserSynchronized_def AuthUser_def hasMinimalCodeRequirements_def)

theorem FindUser_no_length_check_witness:
  "validUsers exampleAuth (hashAuthCode ''123'') = Some bob \<and>
   FindUser exampleAuth ''123'' = Some bob \<and>
   AuthUser simpleEnv exampleFiles exampleAuth ''123'' TargetDownstairs
     = Inr ((False, ''Auth failed: too short code.''), exampleAuth)"
proof -
  have stored: "validUsers exampleAuth (hashAuthCode ''123'') = Some bob"
    by (simp add: hash_123 exampleAuth_def exampleUsers_def)
  show ?thesis
    using FindUser_no_length_check [OF stored, of simpleEnv exampleFiles TargetDownstairs] stored
    by simp
qed

subsection \<open>AuthUser on records on hiatus\<close>

lemma AuthUser_after_reload:
  "hasMinimalCodeRequirements code \<Longrightarrow> reloadIfChanged env w a = Inr a1 \<Longrightarrow>
   AuthUser env w a code target =
     (case findUserSynchronized a1 code of
        None \<Rightarrow> Inr ((False, ''No user for code''), a1)
      | Some user \<Rightarrow>
          if UserLevel user = LevelHiatus
          then Inr ((False, hiatusMessage (Name user) (ContactInfo user)), a1)
          else if \<not> InValidityPeriod env user (fst (Now (clock a1)))
          then Inr ((False, ''Code not valid yet/expired''), a1\<lparr>clock := snd (Now (clock a1))\<rparr>)
          else Inr (levelHasAccess (a1\<lparr>clock := snd (Now (clock a1))\<rparr>) (UserLevel user) target))"
  by (simp add: AuthUser_def Let_def case_prod_beta split: option.splits)

lemma hiatusMessage_names:
  "sublist name (hiatusMessage name contact) \<and> sublist contact (hiatusMessage name contact)"
proof -
  have "hiatusMessage name contact = (''User on hiatus '' @ [CHR 0x27]) @ name @ ('' <'' @ contact @ ''>'' @ [CHR 0x27])"
    by (simp add: hiatusMessage_def)
  moreover have "hiatusMessage name contact = (''User on hiatus '' @ [CHR 0x27] @ name @ '' <'') @ contact @ (''>'' @ [CHR 0x27])"
    by (simp add: hiatusMessage_def)
  ultimately show ?thesis
    unfolding sublist_def by blast
qed

lemma hiatusMessage_nonempty: "hiatusMessage name contact \<noteq> []"
  by (simp add: hiatusMessage_def)

lemma NewFileBasedAuthenticator_InValidityPeriod:
  "NewFileBasedAuthenticator (env\<lparr>InValidityPeriod := p\<rparr>) w filename =
     NewFileBasedAuthenticator env w filename"
  by (simp add: NewFileBasedAuthenticator_def readUserFile_def cong: sum.case_cong if_cong)

lemma reloadIfChanged_InValidityPeriod:
  "reloadIfChanged (env\<lparr>InValidityPeriod := p\<rparr>) w a = reloadIfChanged env w a"
  by (simp add: reloadIfChanged_def NewFileBasedAuthenticator_InValidityPeriod
        cong: sum.case_cong if_cong)

text \<open>
  C3, as amended. When the code has at least six characters and the table, as the reload
  check leaves it, maps the code's hash to a record whose level is Hiatus, \<open>AuthUser\<close> denies
  for every target with the reason \<^verbatim>\<open>User on hiatus '<Name> <<ContactInfo>>'\<close>, which contains
  the record's name and its contact information. The clock has not been read, and the
  outcome is the same under every validity rule: the denial comes before the
  validity-window check and the access policy.
\<close>

theorem AuthUser_hiatus:
  fixes env :: "('w, 'x) Env"
  shows
  "hasMinimalCodeRequirements code \<and> reloadIfChanged env w a = Inr a1 \<and>
   findUserSynchronized a1 code = Some user \<and> UserLevel user = LevelHiatus \<longrightarrow>
     AuthUser env w a code target =
       Inr ((False, hiatusMessage (Name user) (ContactInfo user)), a1) \<and>
     sublist (Name user) (hiatusMessage (Name user) (ContactInfo user)) \<and>
     sublist (ContactInfo user) (hiatusMessage (Name user) (ContactInfo user)) \<and>
     clock a1 = clock a \<and>
     (\<forall>p. AuthUser (env\<lparr>InValidityPeriod := p\<rparr>) w a code target = AuthUser env w a code target)"
proof (intro impI, elim conjE)
  assume h: "hasMinimalCodeRequirements code" "reloadIfChanged env w a = Inr a1"
    "findUserSynchronized a1 code = Some user" "UserLevel user = LevelHiatus"
  have r: "AuthUser env' w a code target =
       Inr ((False, hiatusMessage (Name user) (ContactInfo user)), a1)"
    if "reloadIfChanged env' w a = Inr a1" for env' :: "('w, 'x) Env"
    using h that by (simp add: AuthUser_after_reload)
  have c: "clock a1 = clock a"
    using reloadIfChanged_returns [of env w a] h(2) by simp
  show "AuthUser env w a code target =
       Inr ((False, hiatusMessage (Name user) (ContactInfo user)), a1) \<and>
     sublist (Name user) (hiatusMessage (Name user) (ContactInfo user)) \<and>
     sublist (ContactInfo user) (hiatusMessage (Name user) (ContactInfo user)) \<and>
     clock a1 = clock a \<and>
     (\<forall>p. AuthUser (env\<lparr>InValidityPeriod := p\<rparr>) w a code target = AuthUser env w a code target)"
    using r [of env] r [of "env\<lparr>InValidityPeriod := p\<rparr>" for p] h(2) c hiatusMessage_names
    by (simp add: reloadIfChanged_InValidityPeriod)
qed

theorem AuthUser_hiatus_witness:
  "AuthUser simpleEnv exampleFiles exampleAuth ''hiatus-pin'' TargetDownstairs
     = Inr ((False, ''User on hiatus '' @ [CHR 0x27] @ ''Bob <bob@example.org>'' @ [CHR 0x27]),
            exampleAuth) \<and>
   sublist ''Bob'' (hiatusMessage ''Bob'' ''bob@example.org'') \<and>
   sublist ''bob@example.org'' (hiatusMessage ''Bob'' ''bob@example.org'')"
proof -
  have reload: "reloadIfChanged simpleEnv exampleFiles exampleAuth = Inr exampleAuth"
    by (simp add: reloadIfChanged_def simpleEnv_def exampleFiles_def exampleAuth_def)
  have found: "findUserSynchronized exampleAuth ''hiatus-pin'' = Some bob"
    by (simp add: findUserSynchronized_def hash_hiatus_pin exampleAuth_def exampleUsers_def)
  have long: "hasMinimalCodeRequirements ''hiatus-pin''"
    by (simp add: hasMinimalCodeRequirements_def)
  show ?thesis
    using AuthUser_hiatus [of "''hiatus-pin''" simpleEnv exampleFiles exampleAuth exampleAuth bob
            TargetDownstairs] reload found long
    by (simp add: bob_def hiatusMessage_def)
qed

text \<open>
  C3 as stated fails for a Hiatus record with a code shorter than six characters: Bob's
  second code is \<^verbatim>\<open>123\<close>; \<open>AuthUser\<close> denies it as too short, and that reason names neither
  Bob nor his address.
\<close>

theorem AuthUser_hiatus_short_code_counterexample:
  "UserLevel bob = LevelHiatus \<and> hashAuthCode ''123'' \<in> set (Codes bob) \<and>
   validUsers exampleAuth (hashAuthCode ''123'') = Some bob \<and>
   AuthUser simpleEnv exampleFiles exampleAuth ''123'' TargetDownstairs
     = Inr ((False, ''Auth failed: too short code.''), exampleAuth) \<and>
   \<not> sublist (Name bob) ''Auth failed: too short code.'' \<and>
   \<not> sublist (ContactInfo bob) ''Auth failed: too short code.''"
proof -
  have "\<not> sublist ''Bob'' ''Auth failed: too short code.''"
    using set_mono_sublist [of "''Bob''" "''Auth failed: too short code.''"] by auto
  moreover have "\<not> sublist ''bob@example.org'' ''Auth failed: too short code.''"
    using set_mono_sublist [of "''bob@example.org''" "''Auth failed: too short code.''"] by auto
  ultimately show ?thesis
    by (simp add: bob_def hash_123 exampleAuth_def exampleUsers_def AuthUser_def
          hasMinimalCodeRequirements_def)
qed

subsection \<open>The reasons of denials\<close>

lemma levelHasAccess_empty_reason_exactly:
  "levelHasAccess a level target = ((False, []), a') \<Longrightarrow>
     (\<exists>v. level = LevelOther v) \<or>
     (level = LevelLegacy \<and> target \<noteq> TargetDownstairs \<and>
      11 \<le> Hour (fst (Now (clock a))) \<and> Hour (fst (Now (clock a))) < 22)"
  by (cases level) (auto simp: isUserDaytime_eq isFulltimeUserDaytime_eq split: if_splits)

text \<open>
  C8, as amended. A denial of \<open>AuthUser\<close> with an empty reason occurs only when the code has
  at least six characters and resolves, in the table as the reload check leaves it, to a
  record that is within its validity period and whose level is either outside the
  enumeration, or Legacy while the target is not downstairs and the hour of the clock's
  next reading is in 11..21. Every other denial carries a non-empty reason. In the first
  case the reason is empty: it is the switch's fall-through \<^verbatim>\<open>return false, ""\<close>.
\<close>

theorem AuthUser_denial_reason:
  fixes env :: "('w, 'x) Env"
  shows
  "(\<forall>a'. AuthUser env w a code target = Inr ((False, []), a') \<longrightarrow>
      hasMinimalCodeRequirements code \<and>
      (\<exists>a1 user. reloadIfChanged env w a = Inr a1 \<and>
         findUserSynchronized a1 code = Some user \<and>
         InValidityPeriod env user (fst (Now (clock a1))) \<and>
         ((\<exists>v. UserLevel user = LevelOther v) \<or>
          (UserLevel user = LevelLegacy \<and> target \<noteq> TargetDownstairs \<and>
           11 \<le> Hour (fst (Now (snd (Now (clock a1))))) \<and>
           Hour (fst (Now (snd (Now (clock a1))))) < 22)))) \<and>
   (\<forall>a1 user v. hasMinimalCodeRequirements code \<and> reloadIfChanged env w a = Inr a1 \<and>
        findUserSynchronized a1 code = Some user \<and> UserLevel user = LevelOther v \<and>
        InValidityPeriod env user (fst (Now (clock a1))) \<longrightarrow>
      AuthUser env w a code target = Inr ((False, []), a1\<lparr>clock := snd (Now (clock a1))\<rparr>))"
proof (intro conjI allI impI)
  fix a'
  assume denied: "AuthUser env w a code target = Inr ((False, []), a')"
  obtain a1 where a1: "reloadIfChanged env w a = Inr a1"
    using reloadIfChanged_returns [of env w a] by blast
  show long: "hasMinimalCodeRequirements code"
    using denied by (auto simp: AuthUser_def split: if_splits)
  note run = AuthUser_after_reload [OF long a1, of target]
  show "\<exists>a1 user. reloadIfChanged env w a = Inr a1 \<and>
         findUserSynchronized a1 code = Some user \<and>
         InValidityPeriod env user (fst (Now (clock a1))) \<and>
         ((\<exists>v. UserLevel user = LevelOther v) \<or>
          (UserLevel user = LevelLegacy \<and> target \<noteq> TargetDownstairs \<and>
           11 \<le> Hour (fst (Now (snd (Now (clock a1))))) \<and>
           Hour (fst (Now (snd (Now (clock a1))))) < 22))"
  proof (cases "findUserSynchronized a1 code")
    case None
    with denied run show ?thesis by simp
  next
    case (Some user)
    with denied run have facts: "InValidityPeriod env user (fst (Now (clock a1)))"
      "levelHasAccess (a1\<lparr>clock := snd (Now (clock a1))\<rparr>) (UserLevel user) target
        = ((False, []), a')"
      by (auto simp: hiatusMessage_nonempty split: if_splits)
    from levelHasAccess_empty_reason_exactly [OF facts(2)] facts(1) a1 Some
    show ?thesis by auto
  qed
next
  fix a1 user v
  assume "hasMinimalCodeRequirements code \<and> reloadIfChanged env w a = Inr a1 \<and>
        findUserSynchronized a1 code = Some user \<and> UserLevel user = LevelOther v \<and>
        InValidityPeriod env user (fst (Now (clock a1)))"
  then show "AuthUser env w a code target = Inr ((False, []), a1\<lparr>clock := snd (Now (clock a1))\<rparr>)"
    by (simp add: AuthUser_after_reload)
qed


theorem AuthUser_denial_reason_witness:
  "AuthUser simpleEnv exampleFiles exampleAuth ''odd-level1'' TargetDownstairs
     = Inr ((False, []), exampleAuth\<lparr>clock := snd (Now (clock exampleAuth))\<rparr>) \<and>
   hasMinimalCodeRequirements ''odd-level1'' \<and>
   findUserSynchronized exampleAuth ''odd-level1'' = Some eve \<and>
   UserLevel eve = LevelOther ''guest'' \<and>
   AuthUser simpleEnv exampleFiles (authAt 23) ''legacy-fob'' (TargetOther ''upstairs'')
     = Inr ((False, ''Gate user outside daytime''),
            authAt 23\<lparr>clock := snd (Now (snd (Now (clock (authAt 23)))))\<rparr>) \<and>
   AuthUser simpleEnv exampleFiles (authAt 23) ''legacy-fob'' (TargetOther ''upstairs'')
     \<noteq> Inr ((False, []), authAt 23\<lparr>clock := snd (Now (snd (Now (clock (authAt 23)))))\<rparr>)"
proof -
  have reload: "reloadIfChanged simpleEnv exampleFiles exampleAuth = Inr exampleAuth"
    by (simp add: reloadIfChanged_def simpleEnv_def exampleFiles_def exampleAuth_def)
  have found: "findUserSynchronized exampleAuth ''odd-level1'' = Some eve"
    by (simp add: findUserSynchronized_def hash_odd_level1 exampleAuth_def exampleUsers_def)
  have long: "hasMinimalCodeRequirements ''odd-level1''"
    by (simp add: hasMinimalCodeRequirements_def)
  have valid: "InValidityPeriod simpleEnv eve (fst (Now (clock exampleAuth)))"
    by (simp add: simpleEnv_def validFromOn_def eve_def zeroTime_def IsZero_def)
  have level: "UserLevel eve = LevelOther ''guest''"
    by (simp add: eve_def)
  have other: "AuthUser simpleEnv exampleFiles exampleAuth ''odd-level1'' TargetDownstairs
     = Inr ((False, []), exampleAuth\<lparr>clock := snd (Now (clock exampleAuth))\<rparr>)"
    using AuthUser_denial_reason
            [of simpleEnv exampleFiles exampleAuth "''odd-level1''" TargetDownstairs,
             THEN conjunct2]
          reload found long valid level
    by blast
  have floor: "hasMinimalCodeRequirements ''odd-level1''"
    using AuthUser_denial_reason
            [of simpleEnv exampleFiles exampleAuth "''odd-level1''" TargetDownstairs,
             THEN conjunct1]
          other
    by blast
  have reload23: "reloadIfChanged simpleEnv exampleFiles (authAt 23) = Inr (authAt 23)"
    by (simp add: reloadIfChanged_def simpleEnv_def exampleFiles_def exampleAuth_def authAt_def)
  have found23: "findUserSynchronized (authAt 23) ''legacy-fob'' = Some dave"
    by (simp add: findUserSynchronized_def hash_legacy_fob exampleAuth_def exampleUsers_def
          authAt_def)
  have long23: "hasMinimalCodeRequirements ''legacy-fob''"
    by (simp add: hasMinimalCodeRequirements_def)
  have valid23: "InValidityPeriod simpleEnv dave t" for t
    by (simp add: simpleEnv_def validFromOn_def dave_def zeroTime_def IsZero_def)
  have hour23: "Hour (fst (Now (snd (Now (clock (authAt 23)))))) = 23"
    by (simp add: authAt_def fixedClock_def Now_def atHour_def Hour_def)
  have run23: "AuthUser simpleEnv exampleFiles (authAt 23) ''legacy-fob'' (TargetOther ''upstairs'')
     = Inr ((False, ''Gate user outside daytime''),
            authAt 23\<lparr>clock := snd (Now (snd (Now (clock (authAt 23)))))\<rparr>)"
    using reload23 found23 long23 valid23 hour23
    by (simp add: AuthUser_after_reload dave_def isUserDaytime_eq)
  have night: "AuthUser simpleEnv exampleFiles (authAt 23) ''legacy-fob'' (TargetOther ''upstairs'')
     \<noteq> Inr ((False, []), authAt 23\<lparr>clock := snd (Now (snd (Now (clock (authAt 23)))))\<rparr>)"
  proof
    assume "AuthUser simpleEnv exampleFiles (authAt 23) ''legacy-fob'' (TargetOther ''upstairs'')
     = Inr ((False, []), authAt 23\<lparr>clock := snd (Now (snd (Now (clock (authAt 23)))))\<rparr>)"
    with AuthUser_denial_reason
            [of simpleEnv exampleFiles "authAt 23" "''legacy-fob''" "TargetOther ''upstairs''",
             THEN conjunct1]
    obtain a1 user where "reloadIfChanged simpleEnv exampleFiles (authAt 23) = Inr a1"
      "findUserSynchronized a1 ''legacy-fob'' = Some user"
      "(\<exists>v. UserLevel user = LevelOther v) \<or>
       Hour (fst (Now (snd (Now (clock a1))))) < 22"
      by blast
    with reload23 found23 hour23 show False
      by (auto simp: dave_def)
  qed
  from other floor found level run23 night show ?thesis by (intro conjI)
qed

text \<open>
  C8 as stated fails: Eve's level is outside the enumeration, and \<open>AuthUser\<close> denies her
  with an empty reason.
\<close>

theorem AuthUser_empty_reason_counterexample:
  "AuthUser simpleEnv exampleFiles exampleAuth ''odd-level1'' TargetDownstairs
     = Inr ((False, []), exampleAuth\<lparr>clock := snd (Now (clock exampleAuth))\<rparr>)"
proof -
  have "reloadIfChanged simpleEnv exampleFiles exampleAuth = Inr exampleAuth"
    by (simp add: reloadIfChanged_def simpleEnv_def exampleFiles_def exampleAuth_def)
  moreover have "findUserSynchronized exampleAuth ''odd-level1'' = Some eve"
    by (simp add: findUserSynchronized_def hash_odd_level1 exampleAuth_def exampleUsers_def)
  moreover have "hasMinimalCodeRequirements ''odd-level1''"
    by (simp add: hasMinimalCodeRequirements_def)
  moreover have "InValidityPeriod simpleEnv eve t" for t
    by (simp add: simpleEnv_def validFromOn_def eve_def zeroTime_def IsZero_def)
  ultimately show ?thesis
    by (simp add: AuthUser_after_reload eve_def)
qed

text \<open>
  The other denial without a reason: a Legacy record in the daytime at a target that is
  not downstairs (\<^verbatim>\<open>return target == TargetDownstairs, ""\<close>).
\<close>

lemma AuthUser_legacy_other_target:
  "AuthUser simpleEnv exampleFiles exampleAuth ''legacy-fob'' (TargetOther ''upstairs'')
     = Inr ((False, []), exampleAuth\<lparr>clock := snd (Now (snd (Now (clock exampleAuth))))\<rparr>)"
proof -
  have "reloadIfChanged simpleEnv exampleFiles exampleAuth = Inr exampleAuth"
    by (simp add: reloadIfChanged_def simpleEnv_def exampleFiles_def exampleAuth_def)
  moreover have "findUserSynchronized exampleAuth ''legacy-fob'' = Some dave"
    by (simp add: findUserSynchronized_def hash_legacy_fob exampleAuth_def exampleUsers_def)
  moreover have "hasMinimalCodeRequirements ''legacy-fob''"
    by (simp add: hasMinimalCodeRequirements_def)
  moreover have "InValidityPeriod simpleEnv dave t" for t
    by (simp add: simpleEnv_def validFromOn_def dave_def zeroTime_def IsZero_def)
  moreover have "Hour (fst (Now (snd (Now (clock exampleAuth))))) = 15"
    by (simp add: exampleAuth_def fixedClock_def Now_def atHour_def Hour_def)
  ultimately show ?thesis
    by (simp add: AuthUser_after_reload dave_def isUserDaytime_eq)
qed

subsection \<open>Provisioning through a sponsor\<close>

lemma AddNewUser_after_checks:
  fixes env :: "('w, 'x) Env"
  assumes "findUserSynchronized a code = Some sponsor" "UserLevel sponsor = LevelMember"
    "InValidityPeriod env sponsor (fst (Now (clock a)))"
  shows "AddNewUser env w a code user =
    (let stored = user\<lparr>Sponsors := [hashAuthCode code],
                        ValidFrom := (if IsZero (ValidFrom user) then fst (Now (snd (Now (clock a))))
                                      else ValidFrom user)\<rparr>;
         a2 = a\<lparr>clock := (if IsZero (ValidFrom user) then snd (Now (snd (Now (clock a))))
                          else snd (Now (clock a)))\<rparr>
     in if codeInUse (validUsers a) (Codes user)
        then Inr ((False, ''Duplicate codes while adding user''), a2, w)
        else
          let a3 = a2\<lparr>validUsers := storeCodes (validUsers a) (Codes user) stored\<rparr> in
          case os_OpenFile env w (userFilename a) of
            Some err \<Rightarrow> Inr ((False, err), a3, w)
          | None \<Rightarrow>
              (case os_Stat env (snd (os_Write env w (userFilename a) stored)) (userFilename a) of
                 Inl err \<Rightarrow> Inl NilPointerDereference
               | Inr modTime \<Rightarrow>
                   Inr ((True, []), a3\<lparr>fileTimestamp := modTime\<rparr>,
                        snd (os_Write env w (userFilename a) stored))))"
  using assms
  by (simp add: AddNewUser_def addUserSynchronized_def Let_def case_prod_beta
           cong: option.case_cong sum.case_cong if_cong)

text \<open>
  C4. \<open>AddNewUser\<close> returns ok only if the sponsor's code resolves to a record, the record's
  level is Member and the record is within its validity period at the clock's reading.
  A code that resolves to nothing, a sponsor that is not a Member and a sponsor outside
  the validity period are each rejected with their own reason. When the three checks pass
  and none of the candidate's codes is taken, then however the run goes on, each of the
  candidate's codes maps to the candidate with \<open>Sponsors\<close> replaced by the one-element list
  of the sponsor code's hash and with \<open>ValidFrom\<close> set to the clock's next reading if it
  was zero and left as it was otherwise.
\<close>

theorem AddNewUser_sponsor_gate:
  fixes env :: "('w, 'x) Env"
  shows
  "(\<forall>msg a' w'. AddNewUser env w a code user = Inr ((True, msg), a', w') \<longrightarrow>
      (\<exists>sponsor. findUserSynchronized a code = Some sponsor \<and> UserLevel sponsor = LevelMember \<and>
         InValidityPeriod env sponsor (fst (Now (clock a))))) \<and>
   (findUserSynchronized a code = None \<longrightarrow>
      AddNewUser env w a code user =
        Inr ((False, ''Couldn't find member with authentication code''), a, w)) \<and>
   (\<forall>sponsor. findUserSynchronized a code = Some sponsor \<and> UserLevel sponsor \<noteq> LevelMember \<longrightarrow>
      AddNewUser env w a code user = Inr ((False, ''Non-member AddNewUser attempt''), a, w)) \<and>
   (\<forall>sponsor. findUserSynchronized a code = Some sponsor \<and> UserLevel sponsor = LevelMember \<and>
        \<not> InValidityPeriod env sponsor (fst (Now (clock a))) \<longrightarrow>
      AddNewUser env w a code user =
        Inr ((False, ''Auth-Member not in valid time-frame''),
             a\<lparr>clock := snd (Now (clock a))\<rparr>, w)) \<and>
   (\<forall>sponsor r a' w'. findUserSynchronized a code = Some sponsor \<and>
        UserLevel sponsor = LevelMember \<and>
        InValidityPeriod env sponsor (fst (Now (clock a))) \<and>
        (\<forall>c \<in> set (Codes user). validUsers a c = None) \<and>
        AddNewUser env w a code user = Inr (r, a', w') \<longrightarrow>
      (\<forall>c \<in> set (Codes user).
         validUsers a' c =
           Some (user\<lparr>Sponsors := [hashAuthCode code],
                       ValidFrom := (if IsZero (ValidFrom user)
                                     then fst (Now (snd (Now (clock a))))
                                     else ValidFrom user)\<rparr>)))"
proof (intro conjI allI impI ballI)
  fix msg a' w'
  assume ok: "AddNewUser env w a code user = Inr ((True, msg), a', w')"
  show "\<exists>sponsor. findUserSynchronized a code = Some sponsor \<and> UserLevel sponsor = LevelMember \<and>
         InValidityPeriod env sponsor (fst (Now (clock a)))"
  proof (cases "findUserSynchronized a code")
    case None
    with ok show ?thesis by (simp add: AddNewUser_def)
  next
    case (Some sponsor)
    with ok show ?thesis
      by (cases "UserLevel sponsor = LevelMember";
          cases "InValidityPeriod env sponsor (fst (Now (clock a)))")
         (simp_all add: AddNewUser_def Let_def case_prod_beta)
  qed
next
  assume "findUserSynchronized a code = None"
  then show "AddNewUser env w a code user =
        Inr ((False, ''Couldn't find member with authentication code''), a, w)"
    by (simp add: AddNewUser_def)
next
  fix sponsor
  assume "findUserSynchronized a code = Some sponsor \<and> UserLevel sponsor \<noteq> LevelMember"
  then show "AddNewUser env w a code user = Inr ((False, ''Non-member AddNewUser attempt''), a, w)"
    by (simp add: AddNewUser_def)
next
  fix sponsor
  assume "findUserSynchronized a code = Some sponsor \<and> UserLevel sponsor = LevelMember \<and>
        \<not> InValidityPeriod env sponsor (fst (Now (clock a)))"
  then show "AddNewUser env w a code user =
        Inr ((False, ''Auth-Member not in valid time-frame''), a\<lparr>clock := snd (Now (clock a))\<rparr>, w)"
    by (simp add: AddNewUser_def Let_def case_prod_beta)
next
  fix sponsor r a' w' c
  assume h: "findUserSynchronized a code = Some sponsor \<and>
        UserLevel sponsor = LevelMember \<and>
        InValidityPeriod env sponsor (fst (Now (clock a))) \<and>
        (\<forall>c \<in> set (Codes user). validUsers a c = None) \<and>
        AddNewUser env w a code user = Inr (r, a', w')"
    and c: "c \<in> set (Codes user)"
  from h have free: "\<not> codeInUse (validUsers a) (Codes user)"
    by (simp add: codeInUse_iff)
  from h have run: "AddNewUser env w a code user = Inr (r, a', w')" by simp
  from h have checks: "findUserSynchronized a code = Some sponsor" "UserLevel sponsor = LevelMember"
    "InValidityPeriod env sponsor (fst (Now (clock a)))" by simp_all
  show "validUsers a' c =
           Some (user\<lparr>Sponsors := [hashAuthCode code],
                       ValidFrom := (if IsZero (ValidFrom user)
                                     then fst (Now (snd (Now (clock a))))
                                     else ValidFrom user)\<rparr>)"
    using run free c unfolding AddNewUser_after_checks [OF checks]
    by (auto simp: Let_def storeCodes_apply split: option.splits sum.splits)
qed

lemma example_sponsor:
  "findUserSynchronized exampleAuth ''member-pin'' = Some alice \<and> UserLevel alice = LevelMember \<and>
   InValidityPeriod simpleEnv alice t \<and> InValidityPeriod fullDiskEnv alice t \<and>
   InValidityPeriod readOnlyEnv alice t"
  by (simp add: findUserSynchronized_def hash_member_pin exampleAuth_def exampleUsers_def
        alice_def simpleEnv_def fullDiskEnv_def readOnlyEnv_def validFromOn_def IsZero_def zeroTime_def)

lemma example_candidate:
  "\<not> codeInUse (validUsers exampleAuth) (Codes newcomer) \<and>
   IsZero (ValidFrom newcomer) \<and>
   fst (Now (snd (Now (clock exampleAuth)))) = atHour 15 \<and>
   snd (Now (snd (Now (clock exampleAuth)))) = (fixedClock (atHour 15))\<lparr>taken := 2\<rparr> \<and>
   newcomer\<lparr>Sponsors := [hashAuthCode ''member-pin''], ValidFrom := atHour 15\<rparr> = nora \<and>
   storeCodes (validUsers exampleAuth) (Codes newcomer) nora
     = (validUsers exampleAuth)(''82f4f1436331c600b8bee8b3075af3ff'' \<mapsto> nora)"
  by (simp add: exampleAuth_def exampleUsers_def newcomer_def nora_def hash_member_pin
        IsZero_def zeroTime_def Now_def fixedClock_def)

lemma example_append:
  "userFilename exampleAuth = ''users.csv'' \<and>
   os_OpenFile simpleEnv exampleFiles ''users.csv'' = None \<and>
   os_Stat simpleEnv (snd (os_Write simpleEnv exampleFiles ''users.csv'' user)) ''users.csv''
     = Inr ((atHour 9)\<lparr>sec := sec (atHour 9) + 1\<rparr>)"
  by (simp add: exampleAuth_def simpleEnv_def exampleFiles_def)

theorem AddNewUser_sponsor_gate_witness:
  "AddNewUser simpleEnv exampleFiles exampleAuth ''member-pin'' newcomer
     = Inr ((True, []),
            addedAuth\<lparr>fileTimestamp := (atHour 9)\<lparr>sec := sec (atHour 9) + 1\<rparr>\<rparr>,
            snd (os_Write simpleEnv exampleFiles ''users.csv'' nora)) \<and>
   validUsers (addedAuth\<lparr>fileTimestamp := (atHour 9)\<lparr>sec := sec (atHour 9) + 1\<rparr>\<rparr>)
       ''82f4f1436331c600b8bee8b3075af3ff'' = Some nora \<and>
   Sponsors newcomer = [''someone''] \<and> Sponsors nora = [hashAuthCode ''member-pin''] \<and>
   IsZero (ValidFrom newcomer) \<and> ValidFrom nora = atHour 15 \<and>
   AddNewUser simpleEnv exampleFiles staleAuth ''member-pin'' newcomer
     = Inr ((False, ''Couldn't find member with authentication code''), staleAuth, exampleFiles) \<and>
   AddNewUser simpleEnv exampleFiles exampleAuth ''hiatus-pin'' newcomer
     = Inr ((False, ''Non-member AddNewUser attempt''), exampleAuth, exampleFiles) \<and>
   AddNewUser (simpleEnv\<lparr>InValidityPeriod := (\<lambda>user now. False)\<rparr>) exampleFiles exampleAuth
       ''member-pin'' newcomer
     = Inr ((False, ''Auth-Member not in valid time-frame''),
            exampleAuth\<lparr>clock := snd (Now (clock exampleAuth))\<rparr>, exampleFiles)"
proof -
  have run: "AddNewUser simpleEnv exampleFiles exampleAuth ''member-pin'' newcomer =
      Inr ((True, []),
           addedAuth\<lparr>fileTimestamp := (atHour 9)\<lparr>sec := sec (atHour 9) + 1\<rparr>\<rparr>,
           snd (os_Write simpleEnv exampleFiles ''users.csv'' nora))"
    using example_sponsor example_candidate example_append
    by (simp add: AddNewUser_after_checks Let_def addedAuth_def)
  have sponsor: "findUserSynchronized exampleAuth ''member-pin'' = Some alice"
    "UserLevel alice = LevelMember"
    "InValidityPeriod simpleEnv alice (fst (Now (clock exampleAuth)))"
    using example_sponsor by simp_all
  have free: "\<forall>c \<in> set (Codes newcomer). validUsers exampleAuth c = None"
    by (simp add: newcomer_def exampleAuth_def exampleUsers_def)
  have code: "''82f4f1436331c600b8bee8b3075af3ff'' \<in> set (Codes newcomer)"
    by (simp add: newcomer_def)
  have "validUsers (addedAuth\<lparr>fileTimestamp := (atHour 9)\<lparr>sec := sec (atHour 9) + 1\<rparr>\<rparr>)
       ''82f4f1436331c600b8bee8b3075af3ff''
      = Some (newcomer\<lparr>Sponsors := [hashAuthCode ''member-pin''],
                ValidFrom := (if IsZero (ValidFrom newcomer)
                              then fst (Now (snd (Now (clock exampleAuth))))
                              else ValidFrom newcomer)\<rparr>)"
    using AddNewUser_sponsor_gate [of simpleEnv exampleFiles exampleAuth "''member-pin''" newcomer,
            THEN conjunct2, THEN conjunct2, THEN conjunct2, THEN conjunct2]
          sponsor free run code
    by blast
  then have stored: "validUsers (addedAuth\<lparr>fileTimestamp := (atHour 9)\<lparr>sec := sec (atHour 9) + 1\<rparr>\<rparr>)
       ''82f4f1436331c600b8bee8b3075af3ff'' = Some nora"
    using example_candidate by simp
  have none: "findUserSynchronized staleAuth ''member-pin'' = None"
    by (simp add: findUserSynchronized_def staleAuth_def)
  have bob: "findUserSynchronized exampleAuth ''hiatus-pin'' = Some bob \<and> UserLevel bob \<noteq> LevelMember"
    by (simp add: findUserSynchronized_def hash_hiatus_pin exampleAuth_def exampleUsers_def bob_def)
  have facts: "Sponsors newcomer = [''someone''] \<and> Sponsors nora = [hashAuthCode ''member-pin''] \<and>
     IsZero (ValidFrom newcomer) \<and> ValidFrom nora = atHour 15"
    by (simp add: nora_def newcomer_def hash_member_pin IsZero_def zeroTime_def)
  have notfound: "AddNewUser simpleEnv exampleFiles staleAuth ''member-pin'' newcomer
     = Inr ((False, ''Couldn't find member with authentication code''), staleAuth, exampleFiles)"
    using AddNewUser_sponsor_gate [of simpleEnv exampleFiles staleAuth "''member-pin''" newcomer,
            THEN conjunct2, THEN conjunct1] none
    by blast
  have nonmember: "AddNewUser simpleEnv exampleFiles exampleAuth ''hiatus-pin'' newcomer
     = Inr ((False, ''Non-member AddNewUser attempt''), exampleAuth, exampleFiles)"
    using AddNewUser_sponsor_gate [of simpleEnv exampleFiles exampleAuth "''hiatus-pin''" newcomer,
            THEN conjunct2, THEN conjunct2, THEN conjunct1] bob
    by blast
  have invalid: "\<not> InValidityPeriod (simpleEnv\<lparr>InValidityPeriod := (\<lambda>user now. False)\<rparr>) alice
      (fst (Now (clock exampleAuth)))"
    by simp
  have expired: "AddNewUser (simpleEnv\<lparr>InValidityPeriod := (\<lambda>user now. False)\<rparr>) exampleFiles
       exampleAuth ''member-pin'' newcomer
     = Inr ((False, ''Auth-Member not in valid time-frame''),
            exampleAuth\<lparr>clock := snd (Now (clock exampleAuth))\<rparr>, exampleFiles)"
    using AddNewUser_sponsor_gate [of "simpleEnv\<lparr>InValidityPeriod := (\<lambda>user now. False)\<rparr>"
             exampleFiles exampleAuth "''member-pin''" newcomer,
            THEN conjunct2, THEN conjunct2, THEN conjunct2, THEN conjunct1]
          sponsor(1,2) invalid
    by blast
  from run stored facts notfound nonmember expired show ?thesis
    by (intro conjI) simp_all
qed

subsection \<open>Failures of the persisted file\<close>

text \<open>
  The one failure of the persisted file that \<open>AddNewUser\<close> reports. When the sponsor checks
  pass, none of the candidate's codes is taken and the user file cannot be opened for
  appending, \<open>AddNewUser\<close> rejects with the text of that error, and the insert stays: each
  of the candidate's codes maps to the stored candidate, \<open>FindUser\<close> with a plain code whose
  hash is one of them returns it, and every other key of the table is untouched. The file
  system is left as it was.
\<close>

theorem AddNewUser_open_failure_keeps_insert:
  fixes env :: "('w, 'x) Env"
  shows
  "findUserSynchronized a code = Some sponsor \<and> UserLevel sponsor = LevelMember \<and>
   InValidityPeriod env sponsor (fst (Now (clock a))) \<and>
   (\<forall>c \<in> set (Codes user). validUsers a c = None) \<and>
   os_OpenFile env w (userFilename a) = Some err \<longrightarrow>
     (let stored = user\<lparr>Sponsors := [hashAuthCode code],
                         ValidFrom := (if IsZero (ValidFrom user)
                                       then fst (Now (snd (Now (clock a))))
                                       else ValidFrom user)\<rparr>
      in \<exists>a'. AddNewUser env w a code user = Inr ((False, err), a', w) \<and>
           (\<forall>c \<in> set (Codes user). validUsers a' c = Some stored) \<and>
           (\<forall>plain. hashAuthCode plain \<in> set (Codes user) \<longrightarrow> FindUser a' plain = Some stored) \<and>
           (\<forall>c. c \<notin> set (Codes user) \<longrightarrow> validUsers a' c = validUsers a c))"
proof (intro impI, elim conjE)
  assume checks: "findUserSynchronized a code = Some sponsor" "UserLevel sponsor = LevelMember"
    "InValidityPeriod env sponsor (fst (Now (clock a)))"
    and free: "\<forall>c \<in> set (Codes user). validUsers a c = None"
    and closed: "os_OpenFile env w (userFilename a) = Some err"
  from free have free': "\<not> codeInUse (validUsers a) (Codes user)"
    by (simp add: codeInUse_iff)
  show "let stored = user\<lparr>Sponsors := [hashAuthCode code],
                         ValidFrom := (if IsZero (ValidFrom user)
                                       then fst (Now (snd (Now (clock a))))
                                       else ValidFrom user)\<rparr>
      in \<exists>a'. AddNewUser env w a code user = Inr ((False, err), a', w) \<and>
           (\<forall>c \<in> set (Codes user). validUsers a' c = Some stored) \<and>
           (\<forall>plain. hashAuthCode plain \<in> set (Codes user) \<longrightarrow> FindUser a' plain = Some stored) \<and>
           (\<forall>c. c \<notin> set (Codes user) \<longrightarrow> validUsers a' c = validUsers a c)"
    unfolding AddNewUser_after_checks [OF checks]
    using free' closed
    by (simp add: Let_def storeCodes_apply FindUser_def findUserSynchronized_def)
qed

theorem AddNewUser_open_failure_keeps_insert_witness:
  "AddNewUser readOnlyEnv exampleFiles exampleAuth ''member-pin'' newcomer
     = Inr ((False, ''open users.csv: permission denied''), addedAuth, exampleFiles) \<and>
   FindUser addedAuth ''new-user-1'' = Some nora \<and>
   FindUser exampleAuth ''new-user-1'' = None"
proof -
  have closed: "os_OpenFile readOnlyEnv exampleFiles (userFilename exampleAuth)
      = Some ''open users.csv: permission denied''"
    by (simp add: readOnlyEnv_def simpleEnv_def)
  have free: "\<forall>c \<in> set (Codes newcomer). validUsers exampleAuth c = None"
    by (simp add: newcomer_def exampleAuth_def exampleUsers_def)
  have run: "AddNewUser readOnlyEnv exampleFiles exampleAuth ''member-pin'' newcomer
     = Inr ((False, ''open users.csv: permission denied''), addedAuth, exampleFiles)"
    using example_sponsor example_candidate closed
    by (simp add: AddNewUser_after_checks Let_def addedAuth_def)
  have before: "FindUser exampleAuth ''new-user-1'' = None"
    by (simp add: FindUser_def findUserSynchronized_def hash_new_user_1 exampleAuth_def exampleUsers_def)
  have code: "hashAuthCode ''new-user-1'' \<in> set (Codes newcomer)"
    by (simp add: hash_new_user_1 newcomer_def)
  show ?thesis
    using AddNewUser_open_failure_keeps_insert
            [of exampleAuth "''member-pin''" alice readOnlyEnv newcomer exampleFiles
                "''open users.csv: permission denied''"]
          example_sponsor example_candidate closed free run before code
    by (auto simp: Let_def)
qed

text \<open>
  C5. The failures after the open are not reported. On a full disk the file opens, the
  writer is left with an error and the file is unchanged, yet \<open>AddNewUser\<close> returns ok with
  an empty reason: the source never asks the writer for its error. When the final
  \<^verbatim>\<open>os.Stat\<close> fails, its error is discarded and the run ends in a nil dereference instead of
  a reject.
\<close>

theorem AddNewUser_persistence_failures_unreported:
  "os_OpenFile fullDiskEnv exampleFiles ''users.csv'' = None \<and>
   os_Write fullDiskEnv exampleFiles ''users.csv'' nora
     = (Some ''write: no space left on device'', exampleFiles) \<and>
   AddNewUser fullDiskEnv exampleFiles exampleAuth ''member-pin'' newcomer
     = Inr ((True, []), addedAuth, exampleFiles) \<and>
   os_OpenFile noStatEnv exampleFiles ''users.csv'' = None \<and>
   os_Stat noStatEnv (snd (os_Write noStatEnv exampleFiles ''users.csv'' nora)) ''users.csv''
     = Inl ''stat users.csv: permission denied'' \<and>
   AddNewUser noStatEnv exampleFiles exampleAuth ''member-pin'' newcomer
     = Inl NilPointerDereference"
proof -
  have io: "os_OpenFile fullDiskEnv exampleFiles ''users.csv'' = None \<and>
      os_Write fullDiskEnv exampleFiles ''users.csv'' nora
        = (Some ''write: no space left on device'', exampleFiles) \<and>
      os_Stat fullDiskEnv exampleFiles ''users.csv'' = Inr (atHour 9) \<and>
      userFilename exampleAuth = ''users.csv''"
    by (simp add: fullDiskEnv_def simpleEnv_def exampleFiles_def exampleAuth_def)
  have full: "AddNewUser fullDiskEnv exampleFiles exampleAuth ''member-pin'' newcomer
     = Inr ((True, []), addedAuth, exampleFiles)"
    using example_sponsor example_candidate io
    by (simp add: AddNewUser_after_checks Let_def addedAuth_def) (simp add: exampleAuth_def)
  have io': "os_OpenFile noStatEnv exampleFiles ''users.csv'' = None \<and>
      os_Stat noStatEnv w ''users.csv'' = Inl ''stat users.csv: permission denied'' \<and>
      InValidityPeriod noStatEnv alice t" for w t
    by (simp add: noStatEnv_def simpleEnv_def exampleFiles_def validFromOn_def alice_def
          IsZero_def zeroTime_def)
  have crash: "AddNewUser noStatEnv exampleFiles exampleAuth ''member-pin'' newcomer
     = Inl NilPointerDereference"
    using example_sponsor example_candidate io io'
    by (simp add: AddNewUser_after_checks Let_def)
  from io io' full crash show ?thesis by (intro conjI) simp_all
qed

end
